theory Spec2Isabelle
  imports Main "HOL-Library.Sublist"
begin

section \<open>Data model (types.ts)\<close>

text \<open>
  JavaScript strings are modelled as \<open>string\<close>; every character stands for one UTF-16 code
  unit below 256, so \<open>length\<close> is the \<open>.length\<close> of the source on such strings.
  An optional field (\<open>title?: string\<close>) is an \<open>option\<close>; \<open>None\<close> is \<open>undefined\<close>.
\<close>

datatype ChatMode = Standard | SearchGrounded | FastResponse

datatype Sender = User | Ai

record ToolSource =
  uri :: string
  title :: "string option"

record Message =
  msg_id :: string
  sender :: Sender
  msg_text :: string
  imageUrl :: "string option"
  sources :: "ToolSource list option"
  timestamp :: nat

text \<open>A browser \<open>File\<close>: only its \<open>type\<close> (the MIME type) is read by the program.\<close>

record File =
  file_name :: string
  file_type :: string

text \<open>The \<open>{ data, mimeType }\<close> object built in \<open>handleSendMessage\<close>. \<open>data\<close> is the second
  piece of the data URL split at commas, which is \<open>undefined\<close> when the URL has no comma.\<close>

record FileData =
  data :: "string option"
  mimeType :: string

section \<open>String operations of the platform\<close>

text \<open>\<open>String.prototype.trim\<close>: white space and line terminators among the code units below 256.\<close>

definition isWhiteSpace :: "char \<Rightarrow> bool" where
  "isWhiteSpace c \<longleftrightarrow> (of_char c :: nat) \<in> {9, 10, 11, 12, 13, 32, 160}"

definition trim :: "string \<Rightarrow> string" where
  "trim s = rev (dropWhile isWhiteSpace (rev (dropWhile isWhiteSpace s)))"

text \<open>\<open>s.includes(p)\<close>: \<open>p\<close> occurs in \<open>s\<close> as a contiguous substring.\<close>

primrec str_includes :: "string \<Rightarrow> string \<Rightarrow> bool" where
  "str_includes [] p = (p = [])"
| "str_includes (c # cs) p = (prefix p (c # cs) \<or> str_includes cs p)"

text \<open>\<open>s.startsWith(p)\<close>.\<close>

definition startsWith :: "string \<Rightarrow> string \<Rightarrow> bool" where
  "startsWith s p = prefix p s"

text \<open>\<open>s.split(c)\<close> for a one-character separator; the result is never empty.\<close>

fun split_on :: "char \<Rightarrow> string \<Rightarrow> string list" where
  "split_on c [] = [[]]"
| "split_on c (x # xs) =
     (if x = c then [] # split_on c xs
      else (case split_on c xs of
              [] \<Rightarrow> [[x]]
            | y # ys \<Rightarrow> (x # y) # ys))"

text \<open>\<open>xs[i]\<close> on a JavaScript array: \<open>undefined\<close> out of range.\<close>

definition at_index :: "'a list \<Rightarrow> nat \<Rightarrow> 'a option" where
  "at_index xs i = (if i < length xs then Some (xs ! i) else None)"

section \<open>Collaborators of the host environment\<close>

text \<open>What a \<open>FileReader\<close> does with \<open>readAsDataURL\<close>: it fires \<open>onload\<close> with a string
  result, \<open>onload\<close> with a result that is not a string, or \<open>onerror\<close>.\<close>

datatype ReaderOutcome = LoadedString string | LoadedOther | ReadFailed

text \<open>What \<open>await window.aistudio.openSelectKey()\<close> does: the promise resolves, or the call
  throws or its promise rejects.\<close>

datatype KeyDialogOutcome = KeyResolved | KeyRejected

text \<open>
  The host: the file reader, the identifiers of object URLs, \<open>crypto.randomUUID\<close>, the clock
  behind \<open>new Date()\<close>, and \<open>window.aistudio\<close>: \<open>None\<close> when \<open>openSelectKey\<close> is not a function
  of the host, and otherwise what awaiting it does.
  The functions of a natural number are indexed by the number of such calls made so far
  (\<open>ticks\<close> below), so successive calls may return different values.
\<close>

record Host =
  readAsDataURL :: "File \<Rightarrow> ReaderOutcome"
  blobId :: "nat \<Rightarrow> string"
  randomUUID :: "nat \<Rightarrow> string"
  now :: "nat \<Rightarrow> nat"
  aistudio :: "KeyDialogOutcome option"

text \<open>Everything the program does to the outside, in order.\<close>

datatype Effect =
    ReadAsDataURL File
  | CreateObjectURL File string
  | RevokeObjectURL string
  | CallStandard string "FileData option"
  | CallSearchGrounded string
  | CallFast string
  | OpenSelectKey
  | Alert string

section \<open>Completion gateway (services/geminiService.ts)\<close>

datatype Part = TextPart string | InlineData string "string option"

datatype Contents = Parts "Part list" | PromptText string

datatype Config = NoConfig | GoogleSearchTool | ThinkingBudget nat

record Request =
  model :: string
  contents :: Contents
  config :: Config

text \<open>The SDK's response, as far as the service reads it: \<open>response.text\<close> and the grounding
  sources that \<open>extractGroundingSources\<close> collects from it.\<close>

record Response =
  response_text :: "string option"
  grounding :: "ToolSource list"

text \<open>The SDK: \<open>new GoogleGenAI\<close> may throw an error with a message; \<open>generateContent\<close> returns
  a response or throws an error with a message. Every thrown value is an \<open>Error\<close>, so
  \<open>error.message\<close> is a string (\<open>Inl\<close> carries it).\<close>

record Sdk =
  client_error :: "string option"
  generateContent :: "Request \<Rightarrow> string + Response"

record GatewayResult =
  res_text :: string
  res_sources :: "ToolSource list option"

definition getResponseText :: "Response \<Rightarrow> string" where
  "getResponseText r = (case response_text r of Some t \<Rightarrow> t | None \<Rightarrow> ''No text response received.'')"

definition standardRequest :: "string \<Rightarrow> FileData option \<Rightarrow> Request" where
  "standardRequest prompt fileData =
     \<lparr>model = ''gemini-3-pro-preview'',
      contents = Parts (TextPart prompt #
                   (case fileData of None \<Rightarrow> [] | Some fd \<Rightarrow> [InlineData (mimeType fd) (data fd)])),
      config = NoConfig\<rparr>"

definition searchGroundedRequest :: "string \<Rightarrow> Request" where
  "searchGroundedRequest prompt =
     \<lparr>model = ''gemini-3-flash-preview'', contents = PromptText prompt, config = GoogleSearchTool\<rparr>"

definition fastRequest :: "string \<Rightarrow> Request" where
  "fastRequest prompt =
     \<lparr>model = ''gemini-flash-lite-latest'', contents = PromptText prompt, config = ThinkingBudget 0\<rparr>"

text \<open>Each entry point builds the client outside its \<open>try\<close>, so an error of the constructor
  propagates as it is; an error of \<open>generateContent\<close> is caught and replaced by a fixed message.\<close>

definition generateContentStandard :: "Sdk \<Rightarrow> string \<Rightarrow> FileData option \<Rightarrow> string + GatewayResult" where
  "generateContentStandard sdk prompt fileData =
     (case client_error sdk of
        Some e \<Rightarrow> Inl e
      | None \<Rightarrow>
          (case generateContent sdk (standardRequest prompt fileData) of
             Inr r \<Rightarrow> Inr \<lparr>res_text = getResponseText r, res_sources = Some (grounding r)\<rparr>
           | Inl e \<Rightarrow> Inl ''Failed to get response from gemini-3-pro-preview. Check console for details.''))"

definition generateContentSearchGrounded :: "Sdk \<Rightarrow> string \<Rightarrow> string + GatewayResult" where
  "generateContentSearchGrounded sdk prompt =
     (case client_error sdk of
        Some e \<Rightarrow> Inl e
      | None \<Rightarrow>
          (case generateContent sdk (searchGroundedRequest prompt) of
             Inr r \<Rightarrow> Inr \<lparr>res_text = getResponseText r, res_sources = Some (grounding r)\<rparr>
           | Inl e \<Rightarrow> Inl ''Failed to get search-grounded response from gemini-3-flash-preview. Check console for details.''))"

definition generateContentFast :: "Sdk \<Rightarrow> string \<Rightarrow> string + GatewayResult" where
  "generateContentFast sdk prompt =
     (case client_error sdk of
        Some e \<Rightarrow> Inl e
      | None \<Rightarrow>
          (case generateContent sdk (fastRequest prompt) of
             Inr r \<Rightarrow> Inr \<lparr>res_text = getResponseText r, res_sources = Some (grounding r)\<rparr>
           | Inl e \<Rightarrow> Inl ''Failed to get fast response from gemini-flash-lite-latest. Check console for details.''))"

text \<open>The service object the orchestrator calls: three entry points.\<close>

record GeminiService =
  svcStandard :: "string \<Rightarrow> FileData option \<Rightarrow> string + GatewayResult"
  svcSearchGrounded :: "string \<Rightarrow> string + GatewayResult"
  svcFast :: "string \<Rightarrow> string + GatewayResult"

definition geminiService :: "Sdk \<Rightarrow> GeminiService" where
  "geminiService sdk =
     \<lparr>svcStandard = generateContentStandard sdk,
      svcSearchGrounded = generateContentSearchGrounded sdk,
      svcFast = generateContentFast sdk\<rparr>"

section \<open>Session state\<close>

text \<open>
  The state of \<open>App\<close> (\<open>messages\<close>, \<open>isLoading\<close>, \<open>currentMode\<close>) and of \<open>MessageInput\<close>
  (\<open>inputText\<close>, \<open>selectedFile\<close>, \<open>filePreviewUrl\<close>), the effects performed so far, and the
  number of host calls that have consumed a fresh value. A \<open>setState\<close> call is an update
  of the field; \<open>console.error\<close> and the rendering are left out.
\<close>

record World =
  messages :: "Message list"
  isLoading :: bool
  currentMode :: ChatMode
  inputText :: string
  selectedFile :: "File option"
  filePreviewUrl :: "string option"
  trace :: "Effect list"
  ticks :: nat

definition perform :: "Effect \<Rightarrow> World \<Rightarrow> World" where
  "perform e w = w\<lparr>trace := trace w @ [e]\<rparr>"

definition setIsLoading :: "bool \<Rightarrow> World \<Rightarrow> World" where
  "setIsLoading b w = w\<lparr>isLoading := b\<rparr>"

text \<open>\<open>setMessages((prev) => [...prev, { id: crypto.randomUUID(), ..., timestamp: new Date() }])\<close>.\<close>

definition appendMessage ::
  "Host \<Rightarrow> Sender \<Rightarrow> string \<Rightarrow> string option \<Rightarrow> ToolSource list option \<Rightarrow> World \<Rightarrow> World" where
  "appendMessage H s t img srcs w =
     w\<lparr>messages := messages w @
          [\<lparr>msg_id = randomUUID H (ticks w), sender = s, msg_text = t, imageUrl = img,
            sources = srcs, timestamp = now H (ticks w)\<rparr>],
       ticks := Suc (ticks w)\<rparr>"

text \<open>\<open>URL.createObjectURL(file)\<close> returns a new URL of the \<open>blob:\<close> scheme.\<close>

definition createObjectURL :: "Host \<Rightarrow> File \<Rightarrow> World \<Rightarrow> string \<times> World" where
  "createObjectURL H f w =
     (let u = ''blob:'' @ blobId H (ticks w)
      in (u, (perform (CreateObjectURL f u) w)\<lparr>ticks := Suc (ticks w)\<rparr>))"

text \<open>\<open>if (filePreviewUrl) URL.revokeObjectURL(filePreviewUrl)\<close>: an empty string is falsy.\<close>

definition revokeIfSet :: "string option \<Rightarrow> World \<Rightarrow> World" where
  "revokeIfSet url w =
     (case url of
        None \<Rightarrow> w
      | Some u \<Rightarrow> if u \<noteq> [] then perform (RevokeObjectURL u) w else w)"

section \<open>Turn orchestrator (\<open>handleSendMessage\<close> in App)\<close>

datatype DecodeError = NotAString | ReaderError

text \<open>\<open>fileToBase64\<close>: the promise resolves with \<open>reader.result.split(',')[1]\<close> or rejects.\<close>

definition fileToBase64 :: "Host \<Rightarrow> File \<Rightarrow> DecodeError + string option" where
  "fileToBase64 H file =
     (case readAsDataURL H file of
        LoadedString r \<Rightarrow> Inr (at_index (split_on CHR '','' r) 1)
      | LoadedOther \<Rightarrow> Inl NotAString
      | ReadFailed \<Rightarrow> Inl ReaderError)"

definition decodeErrorText :: string where
  "decodeErrorText = ''Error processing file. Please try again.''"

definition searchGroundedAdvisory :: string where
  "searchGroundedAdvisory =
     ''File uploads are not supported in Search Grounded mode. Please switch to Standard Chat for multimodal input.''"

definition fastResponseAdvisory :: string where
  "fastResponseAdvisory =
     ''File uploads are not supported in Fast Response mode. Please switch to Standard Chat for multimodal input.''"

definition genericErrorText :: string where
  "genericErrorText = ''An error occurred while communicating with the AI.''"

definition credentialSignature :: string where
  "credentialSignature = ''Requested entity was not found.''"

definition credentialErrorText :: string where
  "credentialErrorText =
     ''API key issue: Requested entity was not found. Please ensure your API key is correct and associated with a paid GCP project. You can update it by clicking 'Select API Key' in the AI Studio menu.''"

text \<open>
  \<open>handleSendMessage\<close> is an \<open>async\<close> function: it runs until an \<open>await\<close>, and is resumed
  when the awaited promise settles. A suspended call is a \<open>Task\<close> holding what the
  continuation needs: the closure's variables and, for a gateway call and for the key
  selection, the settlement of the promise the call returned.
\<close>

datatype Task =
    AwaitDecode ChatMode string File
  | AwaitGateway "string + GatewayResult" "string option"
  | AwaitSelectKey KeyDialogOutcome string "string option"

text \<open>The \<open>finally\<close> block (lines 172 to 175).\<close>

definition finallyBlock :: "string option \<Rightarrow> World \<Rightarrow> World" where
  "finallyBlock url w = revokeIfSet url (setIsLoading False w)"

text \<open>
  Lines 79 to 139: the user turn is appended, then the \<open>switch\<close> on the mode. The two
  advisory branches \<open>return\<close> inside the \<open>try\<close>, so the \<open>finally\<close> block runs after them.
\<close>

definition dispatch ::
  "Host \<Rightarrow> GeminiService \<Rightarrow> ChatMode \<Rightarrow> string \<Rightarrow> FileData option \<Rightarrow> string option
     \<Rightarrow> World \<Rightarrow> World \<times> Task option" where
  "dispatch H svc mode txt fileData url w =
     (let w1 = appendMessage H User txt url None w in
      case mode of
        SearchGrounded \<Rightarrow>
          if fileData \<noteq> None then
            (finallyBlock url
               (revokeIfSet url (setIsLoading False
                  (appendMessage H Ai searchGroundedAdvisory None None w1))), None)
          else (perform (CallSearchGrounded txt) w1,
                Some (AwaitGateway (svcSearchGrounded svc txt) url))
      | FastResponse \<Rightarrow>
          if fileData \<noteq> None then
            (finallyBlock url
               (revokeIfSet url (setIsLoading False
                  (appendMessage H Ai fastResponseAdvisory None None w1))), None)
          else (perform (CallFast txt) w1,
                Some (AwaitGateway (svcFast svc txt) url))
      | Standard \<Rightarrow>
          (perform (CallStandard txt fileData) w1,
           Some (AwaitGateway (svcStandard svc txt fileData) url)))"

text \<open>Lines 50 to 77, up to the first \<open>await\<close>.\<close>

definition startSend ::
  "Host \<Rightarrow> GeminiService \<Rightarrow> ChatMode \<Rightarrow> string \<Rightarrow> File option \<Rightarrow> World \<Rightarrow> World \<times> Task option" where
  "startSend H svc mode txt file w =
     (let w1 = setIsLoading True w in
      case file of
        None \<Rightarrow> dispatch H svc mode txt None None w1
      | Some f \<Rightarrow> (perform (ReadAsDataURL f) w1, Some (AwaitDecode mode txt f)))"

text \<open>
  The continuations. After the decoding (lines 56 to 77); after the gateway call
  (lines 141 to 175: the success path, or the \<open>catch\<close> block, which awaits
  \<open>openSelectKey\<close> when the message has the credential signature and the host offers the
  function); after \<open>openSelectKey\<close> (lines 163 to 175). When the awaited \<open>openSelectKey\<close>
  fails, the error leaves the \<open>catch\<close> block at line 158: \<open>setMessages\<close> at line 163 is
  skipped and only the \<open>finally\<close> block runs.
\<close>

fun resume :: "Host \<Rightarrow> GeminiService \<Rightarrow> Task \<Rightarrow> World \<Rightarrow> World \<times> Task option" where
  "resume H svc (AwaitDecode mode txt f) w =
     (case fileToBase64 H f of
        Inl e \<Rightarrow> (setIsLoading False (appendMessage H Ai decodeErrorText None None w), None)
      | Inr b64 \<Rightarrow>
          (let (u, w1) = createObjectURL H f w
           in dispatch H svc mode txt (Some \<lparr>data = b64, mimeType = file_type f\<rparr>) (Some u) w1))"
| "resume H svc (AwaitGateway outcome url) w =
     (case outcome of
        Inr r \<Rightarrow> (finallyBlock url (appendMessage H Ai (res_text r) None (res_sources r) w), None)
      | Inl msg \<Rightarrow>
          if str_includes msg credentialSignature then
            (case aistudio H of
               Some settled \<Rightarrow>
                 (perform OpenSelectKey w, Some (AwaitSelectKey settled credentialErrorText url))
             | None \<Rightarrow>
                 (finallyBlock url (appendMessage H Ai credentialErrorText None None w), None))
          else if msg \<noteq> [] then
            (finallyBlock url (appendMessage H Ai (''AI Error: '' @ msg) None None w), None)
          else (finallyBlock url (appendMessage H Ai genericErrorText None None w), None))"
| "resume H svc (AwaitSelectKey settled errorMessage url) w =
     (case settled of
        KeyResolved \<Rightarrow> (finallyBlock url (appendMessage H Ai errorMessage None None w), None)
      | KeyRejected \<Rightarrow> (finallyBlock url w, None))"

text \<open>Running a call to its end: each \<open>await\<close> is resumed at once, at most three times
  (decoding, gateway, key selection). \<open>runSend\<close> returns the state and the call still
  suspended, if any; \<open>handleSendMessage\<close> is the state it ends in.\<close>

fun complete :: "nat \<Rightarrow> Host \<Rightarrow> GeminiService \<Rightarrow> World \<times> Task option \<Rightarrow> World \<times> Task option" where
  "complete 0 H svc c = c"
| "complete (Suc n) H svc (w, None) = (w, None)"
| "complete (Suc n) H svc (w, Some t) = complete n H svc (resume H svc t w)"

definition runSend ::
  "Host \<Rightarrow> GeminiService \<Rightarrow> ChatMode \<Rightarrow> string \<Rightarrow> File option \<Rightarrow> World \<Rightarrow> World \<times> Task option" where
  "runSend H svc mode txt file w =
     complete (Suc (Suc (Suc 0))) H svc (startSend H svc mode txt file w)"

definition handleSendMessage ::
  "Host \<Rightarrow> GeminiService \<Rightarrow> ChatMode \<Rightarrow> string \<Rightarrow> File option \<Rightarrow> World \<Rightarrow> World" where
  "handleSendMessage H svc mode txt file w = fst (runSend H svc mode txt file w)"

section \<open>Input form (components/MessageInput.tsx)\<close>

definition handleTextChange :: "string \<Rightarrow> World \<Rightarrow> World" where
  "handleTextChange v w = w\<lparr>inputText := v\<rparr>"

text \<open>\<open>handleFileChange\<close>: the argument is \<open>e.target.files?.[0]\<close>.\<close>

definition handleFileChange :: "Host \<Rightarrow> File option \<Rightarrow> World \<Rightarrow> World" where
  "handleFileChange H file w =
     (case file of
        Some f \<Rightarrow>
          if startsWith (file_type f) ''image/'' then
            (let (u, w1) = createObjectURL H f (w\<lparr>selectedFile := Some f\<rparr>)
             in w1\<lparr>filePreviewUrl := Some u\<rparr>)
          else
            perform (Alert ''Please upload an image file (PNG, JPG, JPEG, GIF, WEBP).'')
              (w\<lparr>selectedFile := None, filePreviewUrl := None\<rparr>)
      | None \<Rightarrow> w\<lparr>selectedFile := None, filePreviewUrl := None\<rparr>)"

definition clearFile :: "World \<Rightarrow> World" where
  "clearFile w =
     (let w1 = w\<lparr>selectedFile := None\<rparr> in
      case filePreviewUrl w1 of
        None \<Rightarrow> w1
      | Some u \<Rightarrow>
          if u \<noteq> [] then (perform (RevokeObjectURL u) w1)\<lparr>filePreviewUrl := None\<rparr> else w1)"

text \<open>
  A configuration: the session state and the suspended calls of \<open>handleSendMessage\<close>.
  \<open>handleSubmit\<close> calls \<open>onSendMessage\<close>, which runs to its first \<open>await\<close>; then it clears
  the input text and the file.
\<close>

type_synonym Config_state = "World \<times> Task list"

definition pendingOf :: "Task option \<Rightarrow> Task list" where
  "pendingOf t = (case t of None \<Rightarrow> [] | Some t' \<Rightarrow> [t'])"

definition handleSubmit :: "Host \<Rightarrow> GeminiService \<Rightarrow> Config_state \<Rightarrow> Config_state" where
  "handleSubmit H svc c =
     (let (w, ts) = c in
      if isLoading w then (w, ts)
      else if trim (inputText w) \<noteq> [] \<or> selectedFile w \<noteq> None then
        (let (w1, t) = startSend H svc (currentMode w) (trim (inputText w)) (selectedFile w) w
         in (clearFile (w1\<lparr>inputText := []\<rparr>), ts @ pendingOf t))
      else (w, ts))"

section \<open>Events of a session\<close>

text \<open>
  The handlers the user can trigger, and \<open>Settle i\<close>: the promise awaited by the \<open>i\<close>-th
  suspended call settles and the call runs on to its next \<open>await\<close> or to its end.
  The \<open>disabled\<close> attributes of the controls only remove events, so none is modelled.
  A state update is visible to the next event: the handlers of the next event read the
  state the previous ones wrote.
\<close>

datatype Event =
    TextChange string
  | FileChange "File option"
  | ClearFile
  | ModeChange ChatMode
  | Submit
  | Settle nat

fun fire :: "Host \<Rightarrow> GeminiService \<Rightarrow> Config_state \<Rightarrow> Event \<Rightarrow> Config_state" where
  "fire H svc (w, ts) (TextChange v) = (handleTextChange v w, ts)"
| "fire H svc (w, ts) (FileChange file) = (handleFileChange H file w, ts)"
| "fire H svc (w, ts) ClearFile = (clearFile w, ts)"
| "fire H svc (w, ts) (ModeChange m) = (w\<lparr>currentMode := m\<rparr>, ts)"
| "fire H svc (w, ts) Submit = handleSubmit H svc (w, ts)"
| "fire H svc (w, ts) (Settle i) =
     (if i < length ts then
        (let (w1, t) = resume H svc (ts ! i) w
         in (w1, take i ts @ pendingOf t @ drop (Suc i) ts))
      else (w, ts))"

definition initialWorld :: World where
  "initialWorld =
     \<lparr>messages = [], isLoading = False, currentMode = Standard, inputText = [],
      selectedFile = None, filePreviewUrl = None, trace = [], ticks = 0\<rparr>"

definition session :: "Host \<Rightarrow> GeminiService \<Rightarrow> Event list \<Rightarrow> Config_state" where
  "session H svc evs = foldl (fire H svc) (initialWorld, []) evs"

section \<open>Citation links (\<open>renderSources\<close> in components/ChatWindow.tsx)\<close>

text \<open>
  One \<open>a\<close> element per source. \<open>hostname\<close> stands for \<open>new URL(u).hostname\<close>: \<open>None\<close> when
  the constructor throws on \<open>u\<close>, and then the rendering fails as a whole.
\<close>

record Anchor =
  href :: string
  tooltip :: string
  label :: string

text \<open>The fallback of \<open>source.title || ...\<close>, taken when the title is \<open>undefined\<close> or empty.\<close>

definition hostAnchor :: "(string \<Rightarrow> string option) \<Rightarrow> ToolSource \<Rightarrow> Anchor option" where
  "hostAnchor hostname source =
     (case hostname (uri source) of
        None \<Rightarrow> None
      | Some h \<Rightarrow>
          Some \<lparr>href = uri source, tooltip = uri source,
                label = h @ (if length (uri source) > 50 then ''...'' else [])\<rparr>)"

definition renderSource :: "(string \<Rightarrow> string option) \<Rightarrow> ToolSource \<Rightarrow> Anchor option" where
  "renderSource hostname source =
     (case title source of
        None \<Rightarrow> hostAnchor hostname source
      | Some t \<Rightarrow>
          if t \<noteq> [] then Some \<lparr>href = uri source, tooltip = t, label = t\<rparr>
          else hostAnchor hostname source)"

fun renderSources :: "(string \<Rightarrow> string option) \<Rightarrow> ToolSource list \<Rightarrow> Anchor list option" where
  "renderSources hostname [] = Some []"
| "renderSources hostname (s # ss) =
     (case renderSource hostname s of
        None \<Rightarrow> None
      | Some a \<Rightarrow> (case renderSources hostname ss of None \<Rightarrow> None | Some as \<Rightarrow> Some (a # as)))"

section \<open>Observations used in the statements\<close>

text \<open>The content of a turn: everything but its identifier and its time.\<close>

definition turn :: "Message \<Rightarrow> Sender \<times> string \<times> string option \<times> ToolSource list option" where
  "turn m = (sender m, msg_text m, imageUrl m, sources m)"

fun isGatewayCall :: "Effect \<Rightarrow> bool" where
  "isGatewayCall (CallStandard p fd) = True"
| "isGatewayCall (CallSearchGrounded p) = True"
| "isGatewayCall (CallFast p) = True"
| "isGatewayCall e = False"

definition gatewayCalls :: "World \<Rightarrow> Effect list" where
  "gatewayCalls w = filter isGatewayCall (trace w)"

text \<open>The value of \<open>fileData\<close> after lines 56 to 77, or the error of the decoding.\<close>

definition encodeAttachment :: "Host \<Rightarrow> File option \<Rightarrow> DecodeError + FileData option" where
  "encodeAttachment H att =
     (case att of
        None \<Rightarrow> Inr None
      | Some f \<Rightarrow>
          (case fileToBase64 H f of
             Inl e \<Rightarrow> Inl e
           | Inr b64 \<Rightarrow> Inr (Some \<lparr>data = b64, mimeType = file_type f\<rparr>)))"

text \<open>What the entry point of a mode answers.\<close>

definition gatewayReply ::
  "GeminiService \<Rightarrow> ChatMode \<Rightarrow> string \<Rightarrow> FileData option \<Rightarrow> string + GatewayResult" where
  "gatewayReply svc mode txt fileData =
     (case mode of
        Standard \<Rightarrow> svcStandard svc txt fileData
      | SearchGrounded \<Rightarrow> svcSearchGrounded svc txt
      | FastResponse \<Rightarrow> svcFast svc txt)"

text \<open>The AI turn for what \<open>generateContent\<close> returned to an entry point whose \<open>catch\<close> block
  throws the message \<open>failureText\<close>.\<close>

definition replyTurn ::
  "string \<Rightarrow> string + Response \<Rightarrow> Sender \<times> string \<times> string option \<times> ToolSource list option" where
  "replyTurn failureText outcome =
     (case outcome of
        Inr r \<Rightarrow>
          (Ai, (case response_text r of Some t \<Rightarrow> t | None \<Rightarrow> ''No text response received.''),
           None, Some (grounding r))
      | Inl e \<Rightarrow> (Ai, ''AI Error: '' @ failureText, None, None))"

definition releases :: "string \<Rightarrow> World \<Rightarrow> nat" where
  "releases u w = count_list (trace w) (RevokeObjectURL u)"

definition keySelections :: "World \<Rightarrow> nat" where
  "keySelections w = count_list (trace w) OpenSelectKey"

definition isImage :: "File \<Rightarrow> bool" where
  "isImage f = startsWith (file_type f) ''image/''"

text \<open>The files handed to a \<open>FileReader\<close>: \<open>handleSendMessage\<close> reads exactly the file it is given.\<close>

fun fileRead :: "Effect \<Rightarrow> File list" where
  "fileRead (ReadAsDataURL f) = [f]"
| "fileRead e = []"

definition filesRead :: "World \<Rightarrow> File list" where
  "filesRead w = concat (map fileRead (trace w))"

text \<open>At most one call of \<open>handleSendMessage\<close> is suspended, and the flight flag is set exactly
  while one is.\<close>

definition singleFlight :: "Config_state \<Rightarrow> bool" where
  "singleFlight c = (case c of (w, ts) \<Rightarrow> length ts \<le> 1 \<and> (isLoading w \<longleftrightarrow> ts \<noteq> []))"

text \<open>The selected file, if any, is an image, and so is every file that was read.\<close>

definition onlyImages :: "Config_state \<Rightarrow> bool" where
  "onlyImages c =
     (case c of (w, ts) \<Rightarrow>
        (case selectedFile w of None \<Rightarrow> True | Some f \<Rightarrow> isImage f)
        \<and> list_all isImage (filesRead w))"

section \<open>Concrete inputs\<close>

definition pngFile :: File where
  "pngFile = \<lparr>file_name = ''photo.png'', file_type = ''image/png''\<rparr>"

definition brokenFile :: File where
  "brokenFile = \<lparr>file_name = ''broken.png'', file_type = ''image/png''\<rparr>"

definition pdfFile :: File where
  "pdfFile = \<lparr>file_name = ''notes.pdf'', file_type = ''application/pdf''\<rparr>"

text \<open>A host that reads \<open>photo.png\<close> and fails on every other file; its key selection
  resolves.\<close>

definition hostWithKeyDialog :: Host where
  "hostWithKeyDialog =
     \<lparr>readAsDataURL = (\<lambda>f. if file_name f = ''photo.png''
                             then LoadedString ''data:image/png;base64,iVBORw0KGgo=''
                             else ReadFailed),
      blobId = (\<lambda>n. ''preview-'' @ replicate n CHR ''i''),
      randomUUID = (\<lambda>n. ''id-'' @ replicate n CHR ''i''),
      now = (\<lambda>n. n),
      aistudio = Some KeyResolved\<rparr>"

text \<open>A service that always answers.\<close>

definition answering :: GeminiService where
  "answering =
     \<lparr>svcStandard = (\<lambda>p fd. Inr \<lparr>res_text = ''A cat.'', res_sources = Some []\<rparr>),
      svcSearchGrounded = (\<lambda>p. Inr \<lparr>res_text = ''Sunny.'', res_sources = Some []\<rparr>),
      svcFast = (\<lambda>p. Inr \<lparr>res_text = ''Hello.'', res_sources = Some []\<rparr>)\<rparr>"

text \<open>An SDK whose \<open>generateContent\<close> fails with the credential error of the upstream
  service, and one that answers with the model name and the number of parts (or \<open>text\<close>
  for a plain prompt) of the request it received.\<close>

definition rejectingSdk :: Sdk where
  "rejectingSdk =
     \<lparr>client_error = None, generateContent = (\<lambda>r. Inl ''Requested entity was not found.'')\<rparr>"

definition echoSdk :: Sdk where
  "echoSdk =
     \<lparr>client_error = None,
      generateContent =
        (\<lambda>r. Inr \<lparr>response_text =
                    Some (model r @ '' '' @
                      (case contents r of
                         Parts ps \<Rightarrow> replicate (length ps) CHR ''p''
                       | PromptText p \<Rightarrow> ''text'')),
                  grounding = []\<rparr>)\<rparr>"

text \<open>\<open>new URL(u).hostname\<close> on the addresses used below.\<close>

definition exampleHostname :: "string \<Rightarrow> string option" where
  "exampleHostname u = (if prefix ''https://example.com/'' u then Some ''example.com'' else None)"

definition shortUri :: string where
  "shortUri = ''https://example.com/a''"

definition longUri :: string where
  "longUri = ''https://example.com/articles/2024/a-rather-long-path-to-a-page''"

definition exampleSources :: "ToolSource list" where
  "exampleSources =
     [\<lparr>uri = shortUri, title = Some ''Example''\<rparr>,
      \<lparr>uri = shortUri, title = None\<rparr>,
      \<lparr>uri = longUri, title = Some []\<rparr>]"

definition exampleAnchors :: "Anchor list" where
  "exampleAnchors =
     [\<lparr>href = shortUri, tooltip = ''Example'', label = ''Example''\<rparr>,
      \<lparr>href = shortUri, tooltip = shortUri, label = ''example.com''\<rparr>,
      \<lparr>href = longUri, tooltip = longUri, label = ''example.com...''\<rparr>]"

section \<open>Facts about a whole call\<close>

lemmas world_ops = perform_def setIsLoading_def appendMessage_def revokeIfSet_def
  finallyBlock_def createObjectURL_def

lemmas send_defs = handleSendMessage_def runSend_def startSend_def dispatch_def

text \<open>A call always runs to its end: after three resumptions nothing is suspended.\<close>

lemma runSend_returns: "snd (runSend H svc mode txt att w) = None"
  by (cases mode; cases att)
     (auto simp: runSend_def startSend_def dispatch_def Let_def world_ops
           split: sum.splits prod.splits if_splits option.splits KeyDialogOutcome.splits)

lemma decode_failure:
  assumes "fileToBase64 H f = Inl e"
  shows "handleSendMessage H svc mode txt (Some f) w =
           setIsLoading False (appendMessage H Ai decodeErrorText None None
             (perform (ReadAsDataURL f) (setIsLoading True w)))"
  using assms by (simp add: handleSendMessage_def runSend_def startSend_def Let_def)

section \<open>Attachments under a text-only mode\<close>

text \<open>
  A submission in \<open>SearchGrounded\<close> mode whose attachment cannot be read ends with the
  decoding error alone: no user turn and no advisory turn.
\<close>

theorem C1_counterexample:
  "map turn (messages (handleSendMessage hostWithKeyDialog answering SearchGrounded
      ''weather today'' (Some brokenFile) initialWorld))
   = [(Ai, ''Error processing file. Please try again.'', None, None)]"
  by (simp add: send_defs Let_def world_ops turn_def fileToBase64_def hostWithKeyDialog_def
        brokenFile_def initialWorld_def decodeErrorText_def)

text \<open>
  Claim C1, amended. In \<open>SearchGrounded\<close> and \<open>FastResponse\<close> mode, a submission whose
  attachment decodes appends exactly the user turn (with the preview URL) and then the
  advisory turn of the mode; it makes no gateway call and leaves the flight flag cleared.
\<close>

theorem C1_advisory:
  assumes "mode = SearchGrounded \<or> mode = FastResponse"
    and "fileToBase64 H f = Inr b64"
  shows "map turn (messages (handleSendMessage H svc mode txt (Some f) w))
           = map turn (messages w) @
             [(User, txt, Some (''blob:'' @ blobId H (ticks w)), None),
              (Ai, (if mode = SearchGrounded then searchGroundedAdvisory else fastResponseAdvisory),
               None, None)]
         \<and> gatewayCalls (handleSendMessage H svc mode txt (Some f) w) = gatewayCalls w
         \<and> isLoading (handleSendMessage H svc mode txt (Some f) w) = False"
  using assms
  by (auto simp: send_defs Let_def world_ops turn_def gatewayCalls_def)


lemma decode_pngFile:
  "fileToBase64 hostWithKeyDialog pngFile = Inr (Some ''iVBORw0KGgo='')"
  by (simp add: fileToBase64_def hostWithKeyDialog_def pngFile_def at_index_def)

lemma decode_brokenFile: "fileToBase64 hostWithKeyDialog brokenFile = Inl ReaderError"
  by (simp add: fileToBase64_def hostWithKeyDialog_def brokenFile_def)

theorem C1_advisory_witness:
  "map turn (messages (handleSendMessage hostWithKeyDialog answering SearchGrounded
      ''weather today'' (Some pngFile) initialWorld))
   = [(User, ''weather today'', Some ''blob:preview-'', None),
      (Ai, searchGroundedAdvisory, None, None)]
   \<and> gatewayCalls (handleSendMessage hostWithKeyDialog answering SearchGrounded
        ''weather today'' (Some pngFile) initialWorld) = []
   \<and> isLoading (handleSendMessage hostWithKeyDialog answering SearchGrounded
        ''weather today'' (Some pngFile) initialWorld) = False"
  using C1_advisory [OF disjI1 [OF refl] decode_pngFile, of answering "''weather today''" initialWorld]
  by (simp add: initialWorld_def hostWithKeyDialog_def gatewayCalls_def)

section \<open>Gateway failures\<close>

text \<open>
  What the \<open>catch\<close> block does with a failure of the gateway call, for any service. With the
  signature in the message, the key selection is invoked when the host has it, and the
  credential turn is appended unless the awaited key selection fails; without it, the AI
  turn carries the message after \<open>AI Error:\<close>, or the generic text for an empty message.
\<close>

lemma turn_after_failure:
  assumes "encodeAttachment H att = Inr fd"
    and "mode = Standard \<or> fd = None"
    and "gatewayReply svc mode txt fd = Inl msg"
  shows "map turn (messages (handleSendMessage H svc mode txt att w))
           = map turn (messages w) @
             (User, txt, map_option (\<lambda>f. ''blob:'' @ blobId H (ticks w)) att, None) #
             (if str_includes msg credentialSignature then
                (if aistudio H = Some KeyRejected then [] else [(Ai, credentialErrorText, None, None)])
              else [(Ai, (if msg \<noteq> [] then ''AI Error: '' @ msg else genericErrorText), None, None)])
         \<and> keySelections (handleSendMessage H svc mode txt att w)
           = keySelections w
             + (if str_includes msg credentialSignature \<and> aistudio H \<noteq> None then 1 else 0)"
  using assms
  by (cases mode; cases att)
     (auto simp: send_defs Let_def world_ops turn_def keySelections_def encodeAttachment_def
        gatewayReply_def split: sum.splits option.splits KeyDialogOutcome.splits)

lemma turn_after_plain_failure:
  assumes "encodeAttachment H att = Inr fd"
    and "mode = Standard \<or> fd = None"
    and "gatewayReply svc mode txt fd = Inl msg"
    and "\<not> str_includes msg credentialSignature"
    and "msg \<noteq> []"
  shows "map turn (messages (handleSendMessage H svc mode txt att w))
           = map turn (messages w) @
             [(User, txt, map_option (\<lambda>f. ''blob:'' @ blobId H (ticks w)) att, None),
              (Ai, ''AI Error: '' @ msg, None, None)]
         \<and> keySelections (handleSendMessage H svc mode txt att w) = keySelections w"
  using turn_after_failure [OF assms(1,2,3), of w] assms(4,5)
  by simp

text \<open>
  With the service of this repository, a failure of \<open>generateContent\<close> reaches the
  orchestrator under one of three fixed messages, none of which has the signature: the
  credential branch is then taken only for an error thrown by the client's constructor.
\<close>

lemma fixed_messages_lack_signature:
  "\<not> str_includes ''Failed to get response from gemini-3-pro-preview. Check console for details.'' credentialSignature"
  "\<not> str_includes ''Failed to get search-grounded response from gemini-3-flash-preview. Check console for details.'' credentialSignature"
  "\<not> str_includes ''Failed to get fast response from gemini-flash-lite-latest. Check console for details.'' credentialSignature"
  by (simp_all add: credentialSignature_def)

lemma sdk_failure_is_rewritten:
  assumes "client_error sdk = None"
    and "gatewayReply (geminiService sdk) mode p fd = Inl msg"
  shows "\<not> str_includes msg credentialSignature"
proof (cases mode)
  case Standard
  with assms have
    "msg = ''Failed to get response from gemini-3-pro-preview. Check console for details.''"
    by (simp add: gatewayReply_def geminiService_def generateContentStandard_def
          split: sum.splits)
  then show ?thesis by (simp only: fixed_messages_lack_signature not_False_eq_True)
next
  case SearchGrounded
  with assms have
    "msg = ''Failed to get search-grounded response from gemini-3-flash-preview. Check console for details.''"
    by (simp add: gatewayReply_def geminiService_def generateContentSearchGrounded_def
          split: sum.splits)
  then show ?thesis by (simp only: fixed_messages_lack_signature not_False_eq_True)
next
  case FastResponse
  with assms have
    "msg = ''Failed to get fast response from gemini-flash-lite-latest. Check console for details.''"
    by (simp add: gatewayReply_def geminiService_def generateContentFast_def
          split: sum.splits)
  then show ?thesis by (simp only: fixed_messages_lack_signature not_False_eq_True)
qed

text \<open>
  Claim C2, at the input where the code departs from it: the upstream service does not
  recognise the key, so \<open>generateContent\<close> fails with a message that has the signature, on a
  host that offers the key selection. The entry point replaces the message, the \<open>catch\<close>
  block of \<open>handleSendMessage\<close> finds no signature in it: the AI turn carries the replaced
  message after \<open>AI Error:\<close> and the key selection is not invoked.
\<close>

theorem C2_signature_is_masked:
  "generateContent rejectingSdk (standardRequest ''hello'' None)
     = Inl ''Requested entity was not found.''
   \<and> str_includes ''Requested entity was not found.'' credentialSignature
   \<and> aistudio hostWithKeyDialog = Some KeyResolved
   \<and> map turn (messages (handleSendMessage hostWithKeyDialog (geminiService rejectingSdk)
          Standard ''hello'' None initialWorld))
       = [(User, ''hello'', None, None),
          (Ai, ''AI Error: Failed to get response from gemini-3-pro-preview. Check console for details.'',
           None, None)]
   \<and> keySelections (handleSendMessage hostWithKeyDialog (geminiService rejectingSdk)
          Standard ''hello'' None initialWorld) = 0"
proof -
  have enc: "encodeAttachment hostWithKeyDialog None = Inr None"
    by (simp add: encodeAttachment_def)
  have reply: "gatewayReply (geminiService rejectingSdk) Standard ''hello'' None
      = Inl ''Failed to get response from gemini-3-pro-preview. Check console for details.''"
    by (simp add: gatewayReply_def geminiService_def generateContentStandard_def rejectingSdk_def)
  have nosig: "\<not> str_includes
      ''Failed to get response from gemini-3-pro-preview. Check console for details.''
      credentialSignature"
    by (rule fixed_messages_lack_signature)
  have nonempty: "''Failed to get response from gemini-3-pro-preview. Check console for details.'' \<noteq> []"
    by simp
  have sig: "str_includes ''Requested entity was not found.'' credentialSignature"
    by (simp add: credentialSignature_def)
  have sdk: "generateContent rejectingSdk (standardRequest ''hello'' None)
      = Inl ''Requested entity was not found.''"
    by (simp add: rejectingSdk_def)
  have host: "aistudio hostWithKeyDialog = Some KeyResolved"
    by (simp add: hostWithKeyDialog_def)
  have "map turn (messages (handleSendMessage hostWithKeyDialog (geminiService rejectingSdk)
          Standard ''hello'' None initialWorld))
       = [(User, ''hello'', None, None),
          (Ai, ''AI Error: Failed to get response from gemini-3-pro-preview. Check console for details.'',
           None, None)]
     \<and> keySelections (handleSendMessage hostWithKeyDialog (geminiService rejectingSdk)
          Standard ''hello'' None initialWorld) = 0"
    using turn_after_plain_failure [OF enc disjI1 [OF refl] reply nosig nonempty, of initialWorld]
    by (simp add: initialWorld_def keySelections_def)
  with sdk sig host show ?thesis by (simp only: simp_thms)
qed

section \<open>Release of the preview URL\<close>

text \<open>In \<open>Standard\<close> mode the URL created for the turn is revoked once, whatever the gateway
  answers; on the advisory branch it is revoked by the branch and again by \<open>finally\<close>.\<close>

lemma release_once_standard:
  assumes "fileToBase64 H f = Inr b64"
  shows "releases (''blob:'' @ blobId H (ticks w)) (handleSendMessage H svc Standard txt (Some f) w)
           = Suc (releases (''blob:'' @ blobId H (ticks w)) w)"
  using assms
  by (auto simp: send_defs Let_def world_ops releases_def
        split: sum.splits option.splits KeyDialogOutcome.splits)

lemma release_twice_advisory:
  assumes "mode = SearchGrounded \<or> mode = FastResponse"
    and "fileToBase64 H f = Inr b64"
  shows "releases (''blob:'' @ blobId H (ticks w)) (handleSendMessage H svc mode txt (Some f) w)
           = Suc (Suc (releases (''blob:'' @ blobId H (ticks w)) w))"
  using assms
  by (auto simp: send_defs Let_def world_ops releases_def split: sum.splits)

text \<open>
  Claim C3, at the input where the code departs from it: \<open>SearchGrounded\<close> mode with a
  readable image. The preview URL is created once and revoked twice.
\<close>

theorem C3_advisory_releases_twice:
  "trace (handleSendMessage hostWithKeyDialog answering SearchGrounded ''weather today''
      (Some pngFile) initialWorld)
   = [ReadAsDataURL pngFile, CreateObjectURL pngFile ''blob:preview-'',
      RevokeObjectURL ''blob:preview-'', RevokeObjectURL ''blob:preview-'']
   \<and> releases ''blob:preview-'' (handleSendMessage hostWithKeyDialog answering SearchGrounded
      ''weather today'' (Some pngFile) initialWorld) = 2"
  by (simp add: send_defs Let_def world_ops releases_def fileToBase64_def at_index_def
        pngFile_def initialWorld_def hostWithKeyDialog_def)

section \<open>Dispatch of the modes\<close>

text \<open>The entry points a turn calls, for any service.\<close>

lemma gateway_calls_of_turn:
  "gatewayCalls (handleSendMessage H svc mode p att w)
     = gatewayCalls w @
       (case encodeAttachment H att of
          Inl e \<Rightarrow> []
        | Inr fd \<Rightarrow>
            (case mode of
               Standard \<Rightarrow> [CallStandard p fd]
             | SearchGrounded \<Rightarrow> if fd = None then [CallSearchGrounded p] else []
             | FastResponse \<Rightarrow> if fd = None then [CallFast p] else []))"
  by (cases mode; cases att)
     (auto simp: send_defs Let_def world_ops gatewayCalls_def encodeAttachment_def
        split: sum.splits option.splits KeyDialogOutcome.splits)

text \<open>The answer appended to the log is the one of the mode's entry point.\<close>

lemma answer_of_the_mode:
  assumes "encodeAttachment H att = Inr fd"
    and "mode = Standard \<or> fd = None"
    and "gatewayReply svc mode p fd = Inr r"
  shows "map turn (messages (handleSendMessage H svc mode p att w))
           = map turn (messages w) @
             [(User, p, map_option (\<lambda>f. ''blob:'' @ blobId H (ticks w)) att, None),
              (Ai, res_text r, None, res_sources r)]"
  using assms
  by (cases mode; cases att)
     (auto simp: send_defs Let_def world_ops turn_def encodeAttachment_def
        gatewayReply_def split: sum.splits)

text \<open>The turn that follows a call of an entry point of the repository's service, from what
  \<open>generateContent\<close> returned for the request of that entry point.\<close>

lemma turn_of_entry_point:
  assumes "encodeAttachment H att = Inr fd"
    and "mode = Standard \<or> fd = None"
    and "gatewayReply (geminiService sdk) mode p fd
           = (case outcome of
                Inr r \<Rightarrow> Inr \<lparr>res_text = getResponseText r, res_sources = Some (grounding r)\<rparr>
              | Inl e \<Rightarrow> Inl failureText)"
    and "\<not> str_includes failureText credentialSignature"
    and "failureText \<noteq> []"
  shows "map turn (messages (handleSendMessage H (geminiService sdk) mode p att w))
           = map turn (messages w) @
             [(User, p, map_option (\<lambda>f. ''blob:'' @ blobId H (ticks w)) att, None),
              replyTurn failureText outcome]"
proof (cases outcome)
  case (Inl e)
  with assms(3) have "gatewayReply (geminiService sdk) mode p fd = Inl failureText" by simp
  from turn_after_plain_failure [OF assms(1,2) this assms(4,5), of w] Inl
  show ?thesis by (simp add: replyTurn_def)
next
  case (Inr r)
  with assms(3) have "gatewayReply (geminiService sdk) mode p fd
      = Inr \<lparr>res_text = getResponseText r, res_sources = Some (grounding r)\<rparr>" by simp
  from answer_of_the_mode [OF assms(1,2) this, of w] Inr
  show ?thesis by (simp add: replyTurn_def getResponseText_def)
qed

lemma advisory_of_the_mode:
  assumes "encodeAttachment H att = Inr (Some d)"
    and "mode = SearchGrounded \<or> mode = FastResponse"
  shows "map turn (messages (handleSendMessage H svc mode p att w))
           = map turn (messages w) @
             [(User, p, map_option (\<lambda>f. ''blob:'' @ blobId H (ticks w)) att, None),
              (Ai, (if mode = SearchGrounded then searchGroundedAdvisory else fastResponseAdvisory),
               None, None)]"
  using assms
  by (cases att)
     (auto simp: send_defs Let_def world_ops turn_def encodeAttachment_def split: sum.splits)

text \<open>
  Claim C4. With the service of this repository and a client that could be built, a turn
  whose attachment (if any) decoded calls at most one entry point, the one of its mode, and
  the AI turn it appends is the answer of that entry point to the request of that mode:
  \<^item> \<open>Standard\<close> calls the multimodal entry point with the text and the encoded attachment;
    its request to \<open>gemini-3-pro-preview\<close> has the text part and, with an attachment, the
    inline data part carrying the media type and the encoded data;
  \<^item> \<open>SearchGrounded\<close> and \<open>FastResponse\<close> call their entry point with the text alone, and
    only when there is no attachment (otherwise the advisory turn is appended and nothing
    is called); their requests, to \<open>gemini-3-flash-preview\<close> with the search tool and to
    \<open>gemini-flash-lite-latest\<close> with a thinking budget of 0, carry the prompt text only.
\<close>

theorem C4_dispatch:
  assumes "client_error sdk = None" and "encodeAttachment H att = Inr fd"
  shows "gatewayCalls (handleSendMessage H (geminiService sdk) mode p att w)
           = gatewayCalls w @
             (case mode of
                Standard \<Rightarrow> [CallStandard p fd]
              | SearchGrounded \<Rightarrow> if fd = None then [CallSearchGrounded p] else []
              | FastResponse \<Rightarrow> if fd = None then [CallFast p] else [])
         \<and> map turn (messages (handleSendMessage H (geminiService sdk) mode p att w))
           = map turn (messages w) @
             [(User, p, map_option (\<lambda>f. ''blob:'' @ blobId H (ticks w)) att, None),
              (case mode of
                 Standard \<Rightarrow>
                   replyTurn ''Failed to get response from gemini-3-pro-preview. Check console for details.''
                     (generateContent sdk
                        \<lparr>model = ''gemini-3-pro-preview'',
                         contents = Parts (TextPart p #
                           (case fd of None \<Rightarrow> [] | Some d \<Rightarrow> [InlineData (mimeType d) (data d)])),
                         config = NoConfig\<rparr>)
               | SearchGrounded \<Rightarrow>
                   if fd = None then
                     replyTurn ''Failed to get search-grounded response from gemini-3-flash-preview. Check console for details.''
                       (generateContent sdk
                          \<lparr>model = ''gemini-3-flash-preview'', contents = PromptText p,
                           config = GoogleSearchTool\<rparr>)
                   else (Ai, searchGroundedAdvisory, None, None)
               | FastResponse \<Rightarrow>
                   if fd = None then
                     replyTurn ''Failed to get fast response from gemini-flash-lite-latest. Check console for details.''
                       (generateContent sdk
                          \<lparr>model = ''gemini-flash-lite-latest'', contents = PromptText p,
                           config = ThinkingBudget 0\<rparr>)
                   else (Ai, fastResponseAdvisory, None, None))]"
proof -
  have calls: "gatewayCalls (handleSendMessage H (geminiService sdk) mode p att w)
           = gatewayCalls w @
             (case mode of
                Standard \<Rightarrow> [CallStandard p fd]
              | SearchGrounded \<Rightarrow> if fd = None then [CallSearchGrounded p] else []
              | FastResponse \<Rightarrow> if fd = None then [CallFast p] else [])"
    using gateway_calls_of_turn [of H "geminiService sdk" mode p att w] assms(2) by simp
  have log: "map turn (messages (handleSendMessage H (geminiService sdk) mode p att w))
           = map turn (messages w) @
             [(User, p, map_option (\<lambda>f. ''blob:'' @ blobId H (ticks w)) att, None),
              (case mode of
                 Standard \<Rightarrow>
                   replyTurn ''Failed to get response from gemini-3-pro-preview. Check console for details.''
                     (generateContent sdk
                        \<lparr>model = ''gemini-3-pro-preview'',
                         contents = Parts (TextPart p #
                           (case fd of None \<Rightarrow> [] | Some d \<Rightarrow> [InlineData (mimeType d) (data d)])),
                         config = NoConfig\<rparr>)
               | SearchGrounded \<Rightarrow>
                   if fd = None then
                     replyTurn ''Failed to get search-grounded response from gemini-3-flash-preview. Check console for details.''
                       (generateContent sdk
                          \<lparr>model = ''gemini-3-flash-preview'', contents = PromptText p,
                           config = GoogleSearchTool\<rparr>)
                   else (Ai, searchGroundedAdvisory, None, None)
               | FastResponse \<Rightarrow>
                   if fd = None then
                     replyTurn ''Failed to get fast response from gemini-flash-lite-latest. Check console for details.''
                       (generateContent sdk
                          \<lparr>model = ''gemini-flash-lite-latest'', contents = PromptText p,
                           config = ThinkingBudget 0\<rparr>)
                   else (Ai, fastResponseAdvisory, None, None))]"
  proof (cases mode)
    case Standard
    have reply: "gatewayReply (geminiService sdk) mode p fd
        = (case generateContent sdk (standardRequest p fd) of
             Inr r \<Rightarrow> Inr \<lparr>res_text = getResponseText r, res_sources = Some (grounding r)\<rparr>
           | Inl e \<Rightarrow> Inl ''Failed to get response from gemini-3-pro-preview. Check console for details.'')"
      using assms(1) Standard
      by (simp add: gatewayReply_def geminiService_def generateContentStandard_def
            split: sum.splits)
    from turn_of_entry_point [OF assms(2) disjI1 [OF Standard] reply
        fixed_messages_lack_signature(1), of w] Standard
    show ?thesis by (simp add: standardRequest_def)
  next
    case SearchGrounded
    show ?thesis
    proof (cases fd)
      case None
      have reply: "gatewayReply (geminiService sdk) mode p fd
          = (case generateContent sdk (searchGroundedRequest p) of
               Inr r \<Rightarrow> Inr \<lparr>res_text = getResponseText r, res_sources = Some (grounding r)\<rparr>
             | Inl e \<Rightarrow> Inl ''Failed to get search-grounded response from gemini-3-flash-preview. Check console for details.'')"
        using assms(1) SearchGrounded
        by (simp add: gatewayReply_def geminiService_def generateContentSearchGrounded_def
              split: sum.splits)
      from turn_of_entry_point [OF assms(2) disjI2 [OF None] reply
          fixed_messages_lack_signature(2), of w] SearchGrounded None
      show ?thesis by (simp add: searchGroundedRequest_def)
    next
      case (Some d)
      from advisory_of_the_mode [OF assms(2) [unfolded Some] disjI1 [OF SearchGrounded],
          of "geminiService sdk" p w] SearchGrounded Some
      show ?thesis by simp
    qed
  next
    case FastResponse
    show ?thesis
    proof (cases fd)
      case None
      have reply: "gatewayReply (geminiService sdk) mode p fd
          = (case generateContent sdk (fastRequest p) of
               Inr r \<Rightarrow> Inr \<lparr>res_text = getResponseText r, res_sources = Some (grounding r)\<rparr>
             | Inl e \<Rightarrow> Inl ''Failed to get fast response from gemini-flash-lite-latest. Check console for details.'')"
        using assms(1) FastResponse
        by (simp add: gatewayReply_def geminiService_def generateContentFast_def
              split: sum.splits)
      from turn_of_entry_point [OF assms(2) disjI2 [OF None] reply
          fixed_messages_lack_signature(3), of w] FastResponse None
      show ?thesis by (simp add: fastRequest_def)
    next
      case (Some d)
      from advisory_of_the_mode [OF assms(2) [unfolded Some] disjI2 [OF FastResponse],
          of "geminiService sdk" p w] FastResponse Some
      show ?thesis by simp
    qed
  qed
  from calls log show ?thesis ..
qed

theorem C4_dispatch_witness:
  "gatewayCalls (handleSendMessage hostWithKeyDialog (geminiService echoSdk) Standard
      ''describe this'' (Some pngFile) initialWorld)
     = [CallStandard ''describe this''
          (Some \<lparr>data = Some ''iVBORw0KGgo='', mimeType = ''image/png''\<rparr>)]
   \<and> map turn (messages (handleSendMessage hostWithKeyDialog (geminiService echoSdk) Standard
        ''describe this'' (Some pngFile) initialWorld))
     = [(User, ''describe this'', Some ''blob:preview-'', None),
        (Ai, ''gemini-3-pro-preview pp'', None, Some [])]"
proof -
  have client: "client_error echoSdk = None"
    by (simp add: echoSdk_def)
  have enc: "encodeAttachment hostWithKeyDialog (Some pngFile)
               = Inr (Some \<lparr>data = Some ''iVBORw0KGgo='', mimeType = ''image/png''\<rparr>)"
    by (simp add: encodeAttachment_def decode_pngFile) (simp add: pngFile_def)
  show ?thesis
    using C4_dispatch [OF client enc, of Standard "''describe this''" initialWorld]
    by (simp add: initialWorld_def gatewayCalls_def hostWithKeyDialog_def replyTurn_def
          echoSdk_def)
qed

section \<open>Decoding failures\<close>

text \<open>
  Claim C5. When the attachment fails to decode, the log gains one turn, authored by the AI
  with the decoding error text; no gateway call is made and the flight flag is cleared.
\<close>

theorem C5_decode_failure_aborts:
  assumes "fileToBase64 H f = Inl e"
  shows "length (messages (handleSendMessage H svc mode txt (Some f) w)) = Suc (length (messages w))
         \<and> turn (last (messages (handleSendMessage H svc mode txt (Some f) w)))
             = (Ai, decodeErrorText, None, None)
         \<and> gatewayCalls (handleSendMessage H svc mode txt (Some f) w) = gatewayCalls w
         \<and> isLoading (handleSendMessage H svc mode txt (Some f) w) = False"
  by (simp add: decode_failure [OF assms] world_ops turn_def gatewayCalls_def)

theorem C5_decode_failure_aborts_witness:
  "length (messages (handleSendMessage hostWithKeyDialog answering Standard ''describe this''
      (Some brokenFile) initialWorld)) = 1
   \<and> turn (last (messages (handleSendMessage hostWithKeyDialog answering Standard ''describe this''
      (Some brokenFile) initialWorld))) = (Ai, decodeErrorText, None, None)
   \<and> gatewayCalls (handleSendMessage hostWithKeyDialog answering Standard ''describe this''
      (Some brokenFile) initialWorld) = []
   \<and> isLoading (handleSendMessage hostWithKeyDialog answering Standard ''describe this''
      (Some brokenFile) initialWorld) = False"
  using C5_decode_failure_aborts [OF decode_brokenFile, of answering Standard "''describe this''" initialWorld]
  by (simp add: initialWorld_def gatewayCalls_def)

text \<open>
  Claim C9. When the attachment fails to decode, exactly one AI error turn is appended, with
  no image: no user turn records the text or the attachment. On every other path the user
  turn, with the text and the preview of the attachment, is appended first, and at most
  one AI turn follows it.
\<close>

theorem C9_decode_failure_log:
  "(encodeAttachment H att = Inl e \<longrightarrow>
      map turn (messages (handleSendMessage H svc mode p att w))
        = map turn (messages w) @ [(Ai, decodeErrorText, None, None)])
   \<and> (encodeAttachment H att = Inr fd \<longrightarrow>
      (\<exists>rest. map turn (messages (handleSendMessage H svc mode p att w))
          = map turn (messages w) @
            (User, p, map_option (\<lambda>f. ''blob:'' @ blobId H (ticks w)) att, None) # rest
        \<and> length rest \<le> 1 \<and> (\<forall>r \<in> set rest. fst r = Ai)))"
  by (cases mode; cases att)
     (auto simp: send_defs Let_def world_ops turn_def encodeAttachment_def
        split: sum.splits option.splits KeyDialogOutcome.splits)

theorem C9_decode_failure_log_witness:
  "map turn (messages (handleSendMessage hostWithKeyDialog answering Standard ''describe this''
      (Some brokenFile) initialWorld))
     = [(Ai, decodeErrorText, None, None)]
   \<and> (\<exists>rest. map turn (messages (handleSendMessage hostWithKeyDialog answering Standard
            ''describe this'' (Some pngFile) initialWorld))
          = (User, ''describe this'', Some ''blob:preview-'', None) # rest
        \<and> length rest \<le> 1 \<and> (\<forall>r \<in> set rest. fst r = Ai))"
proof -
  have bad: "encodeAttachment hostWithKeyDialog (Some brokenFile) = Inl ReaderError"
    by (simp add: encodeAttachment_def decode_brokenFile)
  have good: "encodeAttachment hostWithKeyDialog (Some pngFile)
                = Inr (Some \<lparr>data = Some ''iVBORw0KGgo='', mimeType = file_type pngFile\<rparr>)"
    by (simp add: encodeAttachment_def decode_pngFile)
  show ?thesis
    using C9_decode_failure_log [of hostWithKeyDialog "Some brokenFile" ReaderError
        answering Standard "''describe this''" initialWorld]
      C9_decode_failure_log [of hostWithKeyDialog "Some pngFile" _
        answering Standard "''describe this''" initialWorld
        "Some \<lparr>data = Some ''iVBORw0KGgo='', mimeType = file_type pngFile\<rparr>"]
      bad good
    by (simp add: initialWorld_def hostWithKeyDialog_def)
qed

section \<open>Submission from the input form\<close>

lemma trim_whitespace_only:
  assumes "\<forall>c \<in> set s. isWhiteSpace c"
  shows "trim s = []"
proof -
  have blank: "dropWhile isWhiteSpace s = []" using assms by (induction s) auto
  show ?thesis unfolding trim_def blank by simp
qed

text \<open>
  Claim C6. When the input text is empty or consists of white space only and no file is
  selected, \<open>handleSubmit\<close> changes nothing: the log keeps its length and no gateway call
  is made.
\<close>

theorem C6_blank_submission_is_noop:
  assumes "\<forall>c \<in> set (inputText w). isWhiteSpace c"
    and "selectedFile w = None"
  shows "handleSubmit H svc (w, ts) = (w, ts)
         \<and> length (messages (fst (handleSubmit H svc (w, ts)))) = length (messages w)
         \<and> gatewayCalls (fst (handleSubmit H svc (w, ts))) = gatewayCalls w"
proof -
  have "trim (inputText w) = []" using assms(1) by (rule trim_whitespace_only)
  then have "handleSubmit H svc (w, ts) = (w, ts)"
    using assms(2) by (simp add: handleSubmit_def)
  then show ?thesis by simp
qed

theorem C6_blank_submission_is_noop_witness:
  "handleSubmit hostWithKeyDialog answering (initialWorld\<lparr>inputText := ''  ''\<rparr>, [])
     = (initialWorld\<lparr>inputText := ''  ''\<rparr>, [])
   \<and> length (messages (fst (handleSubmit hostWithKeyDialog answering
        (initialWorld\<lparr>inputText := ''  ''\<rparr>, [])))) = 0
   \<and> gatewayCalls (fst (handleSubmit hostWithKeyDialog answering
        (initialWorld\<lparr>inputText := ''  ''\<rparr>, []))) = []"
proof -
  have ws: "\<forall>c \<in> set (inputText (initialWorld\<lparr>inputText := ''  ''\<rparr>)). isWhiteSpace c"
    by (simp add: isWhiteSpace_def)
  have nofile: "selectedFile (initialWorld\<lparr>inputText := ''  ''\<rparr>) = None"
    by (simp add: initialWorld_def)
  show ?thesis
    using C6_blank_submission_is_noop [OF ws nofile, of hostWithKeyDialog answering "[]"]
    by (simp add: initialWorld_def gatewayCalls_def)
qed


section \<open>One turn in flight\<close>

lemma session_snoc: "session H svc (evs @ [e]) = fire H svc (session H svc evs) e"
  by (simp add: session_def)

lemma isLoading_handleFileChange [simp]: "isLoading (handleFileChange H att w) = isLoading w"
  by (simp add: handleFileChange_def world_ops Let_def split: option.splits)

lemma isLoading_clearFile [simp]: "isLoading (clearFile w) = isLoading w"
  by (simp add: clearFile_def world_ops Let_def split: option.splits)

lemma dispatch_flight:
  assumes "isLoading w" and "dispatch H svc mode txt fd url w = (w1, t)"
  shows "isLoading w1 \<longleftrightarrow> t \<noteq> None"
  using assms
  by (cases mode) (auto simp: dispatch_def Let_def world_ops split: if_splits option.splits)

lemma startSend_flight:
  assumes "startSend H svc mode txt att w = (w1, t)"
  shows "isLoading w1 \<and> t \<noteq> None"
  using assms
  by (cases mode; cases att)
     (auto simp: startSend_def dispatch_def Let_def world_ops split: if_splits)

lemma resume_flight:
  assumes "isLoading w" and "resume H svc t w = (w1, t')"
  shows "isLoading w1 \<longleftrightarrow> t' \<noteq> None"
proof (cases t)
  case (AwaitDecode m p f)
  show ?thesis
  proof (cases "fileToBase64 H f")
    case (Inl e)
    with assms AwaitDecode show ?thesis by (auto simp: world_ops)
  next
    case (Inr b64)
    with assms AwaitDecode
    have "dispatch H svc m p (Some \<lparr>data = b64, mimeType = file_type f\<rparr>)
            (Some (fst (createObjectURL H f w))) (snd (createObjectURL H f w)) = (w1, t')"
      by (simp add: split_beta)
    moreover have "isLoading (snd (createObjectURL H f w))"
      using assms(1) by (simp add: world_ops Let_def)
    ultimately show ?thesis by (rule dispatch_flight [rotated])
  qed
next
  case (AwaitGateway outcome url)
  with assms show ?thesis
    by (auto simp: world_ops split: sum.splits if_splits option.splits)
next
  case (AwaitSelectKey settled errorMessage url)
  with assms show ?thesis
    by (auto simp: world_ops split: option.splits if_splits KeyDialogOutcome.splits)
qed

lemma singleFlight_fire:
  assumes "singleFlight c"
  shows "singleFlight (fire H svc c e)"
proof -
  obtain w ts where c: "c = (w, ts)" by (cases c)
  from assms c have len: "length ts \<le> 1" and fl: "isLoading w \<longleftrightarrow> ts \<noteq> []"
    by (simp_all add: singleFlight_def)
  show ?thesis
  proof (cases e)
    case (TextChange v)
    with c len fl show ?thesis by (simp add: singleFlight_def handleTextChange_def)
  next
    case (FileChange att)
    with c len fl show ?thesis by (simp add: singleFlight_def)
  next
    case ClearFile
    with c len fl show ?thesis by (simp add: singleFlight_def)
  next
    case (ModeChange m)
    with c len fl show ?thesis by (simp add: singleFlight_def)
  next
    case Submit
    show ?thesis
    proof (cases "isLoading w \<or> \<not> (trim (inputText w) \<noteq> [] \<or> selectedFile w \<noteq> None)")
      case True
      with c Submit have "fire H svc c e = c" by (auto simp: handleSubmit_def)
      with assms show ?thesis by simp
    next
      case False
      obtain w1 t where st:
        "startSend H svc (currentMode w) (trim (inputText w)) (selectedFile w) w = (w1, t)"
        by (cases "startSend H svc (currentMode w) (trim (inputText w)) (selectedFile w) w")
      from startSend_flight [OF st] obtain t1 where t: "t = Some t1" and l1: "isLoading w1"
        by auto
      from False fl have "ts = []" by simp
      with False c Submit st t l1 show ?thesis
        by (simp add: handleSubmit_def singleFlight_def pendingOf_def)
    qed
  next
    case (Settle i)
    show ?thesis
    proof (cases "i < length ts")
      case False
      with c Settle assms show ?thesis by simp
    next
      case True
      with len obtain t where ts: "ts = [t]" and i: "i = 0"
        by (cases ts) auto
      obtain w1 t' where r: "resume H svc t w = (w1, t')" by (cases "resume H svc t w")
      from fl ts have "isLoading w" by simp
      from resume_flight [OF this r] have "isLoading w1 \<longleftrightarrow> t' \<noteq> None" .
      with c Settle ts i r show ?thesis
        by (cases t') (simp_all add: singleFlight_def pendingOf_def)
    qed
  qed
qed

lemma singleFlight_session: "singleFlight (session H svc evs)"
proof (induction evs rule: rev_induct)
  case Nil
  show ?case by (simp add: session_def singleFlight_def initialWorld_def)
next
  case (snoc e evs)
  then show ?case by (simp add: session_snoc singleFlight_fire)
qed

text \<open>
  Claim C7. In every session, after any sequence of events, at most one call of
  \<open>handleSendMessage\<close> is suspended and the flight flag is set exactly while one is; and a
  submission made while the flag is set changes nothing: no state change, no call started.
\<close>

theorem C7_single_flight:
  "singleFlight (session H svc evs)
   \<and> (isLoading w \<longrightarrow> fire H svc (w, ts) Submit = (w, ts))"
  by (simp add: singleFlight_session handleSubmit_def)


theorem C7_single_flight_witness:
  "singleFlight (session hostWithKeyDialog answering [TextChange ''hello'', Submit])
   \<and> isLoading (fst (session hostWithKeyDialog answering [TextChange ''hello'', Submit]))
   \<and> fire hostWithKeyDialog answering
         (session hostWithKeyDialog answering [TextChange ''hello'', Submit]) Submit
       = session hostWithKeyDialog answering [TextChange ''hello'', Submit]"
proof -
  have loading: "isLoading (fst (session hostWithKeyDialog answering [TextChange ''hello'', Submit]))"
    by (simp add: session_def handleTextChange_def handleSubmit_def startSend_def dispatch_def
          clearFile_def Let_def world_ops initialWorld_def trim_def isWhiteSpace_def)
  show ?thesis
    using C7_single_flight [of hostWithKeyDialog answering "[TextChange ''hello'', Submit]"
        "fst (session hostWithKeyDialog answering [TextChange ''hello'', Submit])"
        "snd (session hostWithKeyDialog answering [TextChange ''hello'', Submit])"]
      loading
    by simp
qed

section \<open>The selected file is an image\<close>

lemma filesRead_perform: "filesRead (perform e w) = filesRead w @ fileRead e"
  by (simp add: filesRead_def perform_def)

lemma filesRead_dispatch: "filesRead (fst (dispatch H svc m p fd url w)) = filesRead w"
  by (cases m)
     (auto simp: dispatch_def Let_def world_ops filesRead_def split: option.splits)

lemma filesRead_resume: "filesRead (fst (resume H svc t w)) = filesRead w"
proof (cases t)
  case (AwaitDecode m p f)
  then show ?thesis
    by (auto simp: filesRead_dispatch split_beta split: sum.splits)
       (simp_all add: world_ops filesRead_def Let_def)
next
  case (AwaitGateway outcome url)
  then show ?thesis
    by (auto simp: world_ops filesRead_def split: sum.splits option.splits)
next
  case (AwaitSelectKey settled errorMessage url)
  then show ?thesis
    by (auto simp: world_ops filesRead_def split: option.splits KeyDialogOutcome.splits)
qed

lemma filesRead_startSend:
  "filesRead (fst (startSend H svc m p att w))
     = filesRead w @ (case att of None \<Rightarrow> [] | Some f \<Rightarrow> [f])"
  by (cases att)
     (simp_all add: startSend_def Let_def filesRead_dispatch filesRead_perform,
      simp_all add: filesRead_def setIsLoading_def)

lemma filesRead_handleFileChange: "filesRead (handleFileChange H att w) = filesRead w"
  by (simp add: handleFileChange_def world_ops filesRead_def Let_def split: option.splits)

lemma filesRead_clearFile: "filesRead (clearFile w) = filesRead w"
  by (simp add: clearFile_def world_ops filesRead_def Let_def split: option.splits)

lemma selectedFile_dispatch: "selectedFile (fst (dispatch H svc m p fd url w)) = selectedFile w"
  by (cases m)
     (auto simp: dispatch_def Let_def world_ops split: option.splits)

lemma selectedFile_resume: "selectedFile (fst (resume H svc t w)) = selectedFile w"
proof (cases t)
  case (AwaitDecode m p f)
  then show ?thesis
    by (auto simp: selectedFile_dispatch split_beta split: sum.splits)
       (simp_all add: world_ops Let_def)
next
  case (AwaitGateway outcome url)
  then show ?thesis
    by (auto simp: world_ops split: sum.splits option.splits)
next
  case (AwaitSelectKey settled errorMessage url)
  then show ?thesis
    by (auto simp: world_ops split: option.splits KeyDialogOutcome.splits)
qed

lemma selectedFile_handleFileChange:
  "selectedFile (handleFileChange H att w)
     = (case att of None \<Rightarrow> None | Some f \<Rightarrow> if isImage f then Some f else None)"
  by (simp add: handleFileChange_def world_ops isImage_def Let_def split: option.splits)

lemma selectedFile_clearFile: "selectedFile (clearFile w) = None"
  by (simp add: clearFile_def world_ops Let_def split: option.splits)

lemma onlyImages_fire:
  assumes "onlyImages c"
  shows "onlyImages (fire H svc c e)"
proof -
  obtain w ts where c: "c = (w, ts)" by (cases c)
  from assms c have sel: "case selectedFile w of None \<Rightarrow> True | Some f \<Rightarrow> isImage f"
    and rd: "list_all isImage (filesRead w)"
    by (simp_all add: onlyImages_def)
  show ?thesis
  proof (cases e)
    case (TextChange v)
    with c sel rd show ?thesis
      by (simp add: onlyImages_def handleTextChange_def filesRead_def)
  next
    case (FileChange att)
    with c rd show ?thesis
      by (simp add: onlyImages_def selectedFile_handleFileChange filesRead_handleFileChange
            split: option.splits)
  next
    case ClearFile
    with c rd show ?thesis
      by (simp add: onlyImages_def selectedFile_clearFile filesRead_clearFile)
  next
    case (ModeChange m)
    with c sel rd show ?thesis by (simp add: onlyImages_def filesRead_def)
  next
    case Submit
    have "filesRead (clearFile ((fst (startSend H svc (currentMode w) (trim (inputText w))
              (selectedFile w) w))\<lparr>inputText := []\<rparr>))
            = filesRead w @ (case selectedFile w of None \<Rightarrow> [] | Some f \<Rightarrow> [f])"
      using filesRead_startSend [of H svc "currentMode w" "trim (inputText w)" "selectedFile w" w]
      by (simp add: filesRead_clearFile) (simp add: filesRead_def)
    with c Submit sel rd show ?thesis
      by (auto simp: handleSubmit_def onlyImages_def selectedFile_clearFile split_beta
            split: option.splits)
  next
    case (Settle i)
    with c sel rd show ?thesis
      by (simp add: onlyImages_def split_beta selectedFile_resume filesRead_resume)
  qed
qed

lemma onlyImages_session: "onlyImages (session H svc evs)"
proof (induction evs rule: rev_induct)
  case Nil
  show ?case by (simp add: session_def onlyImages_def initialWorld_def filesRead_def)
next
  case (snoc e evs)
  then show ?case by (simp add: session_snoc onlyImages_fire)
qed

text \<open>
  Claim C10. In every session the selected file is absent or has a MIME type starting with
  \<open>image/\<close>, and so has every file \<open>handleSendMessage\<close> was given; choosing a file of another
  type clears the selection and its preview, and alerts the user.
\<close>

theorem C10_only_images_selected:
  "onlyImages (session H svc evs)
   \<and> (\<not> isImage f \<longrightarrow>
        selectedFile (handleFileChange H (Some f) w) = None
        \<and> filePreviewUrl (handleFileChange H (Some f) w) = None
        \<and> trace (handleFileChange H (Some f) w)
            = trace w @ [Alert ''Please upload an image file (PNG, JPG, JPEG, GIF, WEBP).''])"
  by (simp add: onlyImages_session handleFileChange_def isImage_def perform_def)

theorem C10_only_images_selected_witness:
  "onlyImages (session hostWithKeyDialog answering
      [FileChange (Some pngFile), FileChange (Some pdfFile), Submit])
   \<and> \<not> isImage pdfFile
   \<and> selectedFile (handleFileChange hostWithKeyDialog (Some pdfFile)
        (initialWorld\<lparr>selectedFile := Some pngFile\<rparr>)) = None
   \<and> filePreviewUrl (handleFileChange hostWithKeyDialog (Some pdfFile)
        (initialWorld\<lparr>selectedFile := Some pngFile\<rparr>)) = None
   \<and> trace (handleFileChange hostWithKeyDialog (Some pdfFile)
        (initialWorld\<lparr>selectedFile := Some pngFile\<rparr>))
       = [Alert ''Please upload an image file (PNG, JPG, JPEG, GIF, WEBP).'']"
proof -
  have pdf: "\<not> isImage pdfFile"
    by (simp add: isImage_def startsWith_def pdfFile_def)
  show ?thesis
    using C10_only_images_selected [of hostWithKeyDialog answering
        "[FileChange (Some pngFile), FileChange (Some pdfFile), Submit]" pdfFile
        "initialWorld\<lparr>selectedFile := Some pngFile\<rparr>"] pdf
    by (simp add: initialWorld_def)
qed


section \<open>Labels of the citation links\<close>

text \<open>With no title and an address longer than 50 code units, the label is the host name
  followed by three dots, not the host name.\<close>

theorem C8_counterexample:
  "exampleHostname longUri = Some ''example.com''
   \<and> map_option label (renderSource exampleHostname \<lparr>uri = longUri, title = None\<rparr>)
       = Some ''example.com...''"
  by (simp add: renderSource_def hostAnchor_def exampleHostname_def longUri_def)

lemma renderSources_length:
  "renderSources hostname srcs = Some anchors \<Longrightarrow> length anchors = length srcs"
  by (induction srcs arbitrary: anchors) (auto split: option.splits)

lemma renderSources_nth:
  "renderSources hostname srcs = Some anchors \<Longrightarrow> i < length srcs
     \<Longrightarrow> renderSource hostname (srcs ! i) = Some (anchors ! i)"
proof (induction srcs arbitrary: anchors i)
  case Nil
  then show ?case by simp
next
  case (Cons s ss)
  then show ?case by (cases i) (auto split: option.splits)
qed

lemma renderSource_label:
  assumes "renderSource hostname s = Some a"
  shows "(\<forall>t. title s = Some t \<and> t \<noteq> [] \<longrightarrow> label a = t)
         \<and> (title s = None \<or> title s = Some [] \<longrightarrow>
              (\<exists>h. hostname (uri s) = Some h
                 \<and> label a = h @ (if 50 < length (uri s) then ''...'' else [])))"
  using assms
  by (auto simp: renderSource_def hostAnchor_def split: option.splits if_splits)

text \<open>
  Claim C8, amended. Every source is rendered as one link, in order. Its label is the
  title when the title is present and not empty; otherwise it is the host name of the
  address, followed by three dots when the address is longer than 50 code units.
\<close>

theorem C8_link_label:
  assumes "renderSources hostname srcs = Some anchors" and "i < length srcs"
  shows "length anchors = length srcs
         \<and> (\<forall>t. title (srcs ! i) = Some t \<and> t \<noteq> [] \<longrightarrow> label (anchors ! i) = t)
         \<and> (title (srcs ! i) = None \<or> title (srcs ! i) = Some [] \<longrightarrow>
              (\<exists>h. hostname (uri (srcs ! i)) = Some h
                 \<and> label (anchors ! i)
                     = h @ (if 50 < length (uri (srcs ! i)) then ''...'' else [])))"
  using renderSource_label [OF renderSources_nth [OF assms]] renderSources_length [OF assms(1)]
  by simp

theorem C8_link_label_witness:
  "renderSources exampleHostname exampleSources = Some exampleAnchors
   \<and> length exampleAnchors = length exampleSources
   \<and> title (exampleSources ! 0) = Some ''Example''
   \<and> label (exampleAnchors ! 0) = ''Example''
   \<and> title (exampleSources ! 2) = Some []
   \<and> (\<exists>h. exampleHostname (uri (exampleSources ! 2)) = Some h
         \<and> label (exampleAnchors ! 2)
             = h @ (if 50 < length (uri (exampleSources ! 2)) then ''...'' else []))"
proof -
  have r: "renderSources exampleHostname exampleSources = Some exampleAnchors"
    by (simp add: renderSource_def hostAnchor_def exampleHostname_def exampleSources_def
          exampleAnchors_def longUri_def shortUri_def)
  have t0: "title (exampleSources ! 0) = Some ''Example''"
    and t2: "title (exampleSources ! 2) = Some []"
    by (simp_all add: exampleSources_def)
  have i0: "0 < length exampleSources" and i2: "2 < length exampleSources"
    by (simp_all add: exampleSources_def)
  show ?thesis
    using C8_link_label [OF r i0] C8_link_label [OF r i2] r t0 t2
    by simp
qed

end
